theory Spec2Isabelle
  imports Main "HOL-Library.Word"
begin

section \<open>The node adapter of the wallet: data model\<close>

text \<open>
  The development embeds \<^verbatim>\<open>src/WalletGui/NodeAdapter.cpp\<close>: the worker object
  \<^verbatim>\<open>InProcessNodeInitializer\<close> and the singleton \<^verbatim>\<open>NodeAdapter\<close>. Member variables
  become fields of a record that every member function takes and returns; signals that
  are emitted are appended to a trace; the behaviour of the classes that the file only
  uses (the node handles, Qt's event loop, the settings) is an explicit parameter.
\<close>

subsection \<open>Settings and the option maps handed to the configurations\<close>

text \<open>
  \<^verbatim>\<open>Settings\<close> is read through its getters only; the record has one field for each
  getter that the file calls. \<^verbatim>\<open>getDataDir\<close> stands for
  \<^verbatim>\<open>getDataDir().absolutePath()\<close>. A \<^verbatim>\<open>QString\<close> is a \<open>string\<close>, and
  \<^verbatim>\<open>toStdString\<close> leaves it as it is.
\<close>

record settings =
  getDataDir :: string
  getP2pBindIp :: string
  getP2pBindPort :: int
  getP2pExternalPort :: int
  hasAllowLocalIpOption :: bool
  hasHideMyPortOption :: bool
  getPeers :: "string list"
  getPriorityNodes :: "string list"
  getExclusiveNodes :: "string list"
  getSeedNodes :: "string list"
  isTestnet :: bool

text \<open>The \<^verbatim>\<open>boost::any\<close> values that the file stores, by the C++ type they hold.\<close>

datatype any = AnyString string | AnyUInt16 "16 word" | AnyBool bool | AnyStringVector "string list"

text \<open>\<^verbatim>\<open>boost::program_options::variable_value(v, defaulted)\<close>.\<close>

record variable_value =
  held :: any
  defaulted :: bool

text \<open>\<^verbatim>\<open>variables_map\<close> is a \<^verbatim>\<open>std::map\<close> from option names to variable values.\<close>

type_synonym variables_map = "string \<rightharpoonup> variable_value"

text \<open>\<^verbatim>\<open>std::map::insert\<close> keeps an entry that is already there.\<close>

definition options_insert :: "string \<Rightarrow> variable_value \<Rightarrow> variables_map \<Rightarrow> variables_map" where
  "options_insert k v m = (case m k of None \<Rightarrow> m(k \<mapsto> v) | Some old \<Rightarrow> m)"

definition toStdString :: "string \<Rightarrow> string" where
  "toStdString q = q"

text \<open>
  \<^verbatim>\<open>convertStringListToVector\<close>: the loop pushes each converted item at the back of
  the result.
\<close>

definition convertStringListToVector :: "string list \<Rightarrow> string list" where
  "convertStringListToVector list = foldl (\<lambda>result item. result @ [toStdString item]) [] list"

text \<open>
  Modelled from the spec: \<^verbatim>\<open>CryptoNote::CoreConfig\<close> and \<^verbatim>\<open>CryptoNote::NetNodeConfig\<close>
  are declared in headers outside the source tree. The spec calls them immutable
  configuration snapshots of the endpoint and peer-list parameters; a snapshot is the
  option map given to its \<^verbatim>\<open>init\<close>, and for the network configuration also the
  testnet flag given to \<^verbatim>\<open>setTestnet\<close>.
\<close>

record core_config =
  core_options :: variables_map

record net_node_config =
  net_options :: variables_map
  testnet :: bool

definition CoreConfig_init :: "variables_map \<Rightarrow> core_config \<Rightarrow> core_config" where
  "CoreConfig_init options config = config\<lparr>core_options := options\<rparr>"

definition NetNodeConfig_init :: "variables_map \<Rightarrow> net_node_config \<Rightarrow> net_node_config" where
  "NetNodeConfig_init options config = config\<lparr>net_options := options\<rparr>"

definition setTestnet :: "bool \<Rightarrow> net_node_config \<Rightarrow> net_node_config" where
  "setTestnet b config = config\<lparr>testnet := b\<rparr>"

definition makeCoreConfig :: "settings \<Rightarrow> core_config" where
  "makeCoreConfig st =
     (let config = \<lparr>core_options = Map.empty\<rparr>;
          options = Map.empty;
          dataDir = AnyString (toStdString (getDataDir st));
          options = options_insert ''data-dir'' \<lparr>held = dataDir, defaulted = False\<rparr> options
      in CoreConfig_init options config)"

definition makeNetNodeConfig :: "settings \<Rightarrow> net_node_config" where
  "makeNetNodeConfig st =
     (let config = \<lparr>net_options = Map.empty, testnet = False\<rparr>;
          options = Map.empty;
          p2pBindIp = AnyString (toStdString (getP2pBindIp st));
          p2pBindPort = AnyUInt16 (word_of_int (getP2pBindPort st));
          p2pExternalPort = AnyUInt16 (word_of_int (getP2pExternalPort st));
          p2pAllowLocalIp = AnyBool (hasAllowLocalIpOption st);
          dataDir = AnyString (toStdString (getDataDir st));
          hideMyPort = AnyBool (hasHideMyPortOption st);
          options = options_insert ''p2p-bind-ip'' \<lparr>held = p2pBindIp, defaulted = False\<rparr> options;
          options = options_insert ''p2p-bind-port'' \<lparr>held = p2pBindPort, defaulted = False\<rparr> options;
          options = options_insert ''p2p-external-port'' \<lparr>held = p2pExternalPort, defaulted = False\<rparr> options;
          options = options_insert ''allow-local-ip'' \<lparr>held = p2pAllowLocalIp, defaulted = False\<rparr> options;
          peerList = convertStringListToVector (getPeers st);
          options = (if peerList \<noteq> []
                     then options_insert ''add-peer'' \<lparr>held = AnyStringVector peerList, defaulted = False\<rparr> options
                     else options);
          priorityNodeList = convertStringListToVector (getPriorityNodes st);
          options = (if priorityNodeList \<noteq> []
                     then options_insert ''add-priority-node''
                            \<lparr>held = AnyStringVector priorityNodeList, defaulted = False\<rparr> options
                     else options);
          exclusiveNodeList = convertStringListToVector (getExclusiveNodes st);
          options = (if exclusiveNodeList \<noteq> []
                     then options_insert ''add-exclusive-node''
                            \<lparr>held = AnyStringVector exclusiveNodeList, defaulted = False\<rparr> options
                     else options);
          seedNodeList = convertStringListToVector (getSeedNodes st);
          options = (if seedNodeList \<noteq> []
                     then options_insert ''seed-node'' \<lparr>held = AnyStringVector seedNodeList, defaulted = False\<rparr> options
                     else options);
          options = options_insert ''hide-my-port'' \<lparr>held = hideMyPort, defaulted = False\<rparr> options;
          options = options_insert ''data-dir'' \<lparr>held = dataDir, defaulted = False\<rparr> options;
          config = NetNodeConfig_init options config
      in setTestnet (isTestnet st) config)"

subsection \<open>Node handles and what the adapter is told about them\<close>

text \<open>
  What a call into the node library may throw: a \<^verbatim>\<open>std::runtime_error\<close> (the only class
  the file has handlers for) or any other exception.
\<close>

datatype exn = RuntimeError | OtherException

text \<open>
  A handle is made by \<^verbatim>\<open>createRpcNode\<close> from a host and a port, or by
  \<^verbatim>\<open>createInprocessNode\<close> from the two configurations. The currency, the logger and the
  callback sink are passed through unchanged and left out.
\<close>

datatype node = RpcNode string int | InprocessNode core_config net_node_config

text \<open>
  The synchronous interface of \<^verbatim>\<open>Node\<close>, which is outside the source tree: each
  operation returns a value or throws. Heights, timestamps and the peer count are 64-bit
  unsigned; the wallet object is the address returned.
\<close>

record node_ops =
  node_getPeerCount :: "node \<Rightarrow> exn + 64 word"
  node_getLastKnownBlockHeight :: "node \<Rightarrow> exn + 64 word"
  node_getLastLocalBlockHeight :: "node \<Rightarrow> exn + 64 word"
  node_getLastLocalBlockTimestamp :: "node \<Rightarrow> exn + 64 word"
  node_convertPaymentId :: "node \<Rightarrow> string \<Rightarrow> exn + string"
  node_extractPaymentId :: "node \<Rightarrow> string \<Rightarrow> exn + string"
  node_createWallet :: "node \<Rightarrow> exn + nat"

text \<open>The three callbacks of \<^verbatim>\<open>INodeCallback\<close>.\<close>

datatype node_callback =
  PeerCountUpdated "64 word"
| LocalBlockchainUpdated "64 word"
| LastKnownBlockHeightUpdated "64 word"

text \<open>
  What the wait loop of \<^verbatim>\<open>init\<close> dispatches, in the order of arrival: the expiry of
  the timer, or a callback of the handle.
\<close>

datatype event = TimerTimeout | NodeCallback node_callback

text \<open>
  How the \<^verbatim>\<open>init\<close> call of the in-process handle ends, as seen from \<^verbatim>\<open>start\<close>: it
  returns, it throws, or it is still running when the adapter goes on (the handle serves
  from inside the call, which returns once \<^verbatim>\<open>deinit\<close> is called on the handle).
\<close>

datatype init_end = InitReturns | InitThrows exn | InitBlocks

text \<open>
  Once the \<^verbatim>\<open>init\<close> call has returned, the worker runs the last three lines of
  \<^verbatim>\<open>start\<close> (the delete, the null and deinit-completed) on its own thread, and nothing
  orders them with the steps that \<^verbatim>\<open>initInProcessNode\<close> takes on the adapter's thread
  after its wait. A run says where they fall: before the local height is queried, before
  the known height is queried, before \<^verbatim>\<open>initInProcessNode\<close> returns, or after it has
  returned. The delete and the assignment of null are taken as one step.
\<close>

datatype teardown_point = BeforeLocalHeightQuery | BeforeKnownHeightQuery | BeforeReturn | AfterReturn

text \<open>
  The inputs of a run. \<^verbatim>\<open>RPC_DEFAULT_PORT\<close> and \<^verbatim>\<open>INTERNAL_WALLET_ERROR\<close> are constants
  of headers outside the source tree. An error code is the \<^verbatim>\<open>value()\<close> of a
  \<^verbatim>\<open>std::error_code\<close>, which converts to true when it is not zero.
  \<open>inprocess_wait_callbacks\<close> are the callbacks that the in-process handle makes to the
  adapter while \<^verbatim>\<open>initInProcessNode\<close> waits.
\<close>

record env =
  settings_instance :: settings
  RPC_DEFAULT_PORT :: int
  INTERNAL_WALLET_ERROR :: int
  ops :: node_ops
  rpc_init_error :: int
  waitLoop_events :: "event list"
  createInprocessNode_throws :: "exn option"
  inprocess_init_callback :: "int list"
  inprocess_init_end :: init_end
  inprocess_wait_callbacks :: "node_callback list"
  teardown :: teardown_point

subsection \<open>Signals and the state of the adapter\<close>

text \<open>The signals of \<^verbatim>\<open>InProcessNodeInitializer\<close>.\<close>

datatype initializer_signal =
  NodeInitCompletedSignal
| NodeInitFailedSignal int
| NodeDeinitCompletedSignal

text \<open>The signals of \<^verbatim>\<open>NodeAdapter\<close> that the file emits.\<close>

datatype adapter_signal =
  AdapterNodeInitCompletedSignal
| PeerCountUpdatedSignal "64 word"
| LocalBlockchainUpdatedSignal "64 word"
| LastKnownBlockHeightUpdatedSignal "64 word"
| InitNodeSignal core_config net_node_config

text \<open>
  \<open>m_node\<close> is the handle slot, which \<^verbatim>\<open>start\<close> and \<^verbatim>\<open>stop\<close> reach through the
  pointer \<^verbatim>\<open>&m_node\<close>. \<open>thread_isRunning\<close> is \<^verbatim>\<open>m_nodeInitializerThread.isRunning()\<close>.
  \<open>initializer_in_init\<close> says that the worker has not left \<^verbatim>\<open>start\<close>: it is inside
  the \<^verbatim>\<open>init\<close> call, or that call has returned and the last three lines are still to
  run. The two traces hold the signals emitted so far, oldest first, and
  \<open>deleted\<close> the handles destroyed so far.
\<close>

record adapter =
  m_node :: "node option"
  thread_isRunning :: bool
  initializer_in_init :: bool
  initializer_emitted :: "initializer_signal list"
  adapter_emitted :: "adapter_signal list"
  deleted :: "node list"

definition emit_initializer :: "initializer_signal \<Rightarrow> adapter \<Rightarrow> adapter" where
  "emit_initializer sig s = s\<lparr>initializer_emitted := initializer_emitted s @ [sig]\<rparr>"

definition emit_adapter :: "adapter_signal \<Rightarrow> adapter \<Rightarrow> adapter" where
  "emit_adapter sig s = s\<lparr>adapter_emitted := adapter_emitted s @ [sig]\<rparr>"

text \<open>\<^verbatim>\<open>delete p\<close>: nothing for a null pointer.\<close>

definition delete_node :: "node option \<Rightarrow> adapter \<Rightarrow> adapter" where
  "delete_node p s = (case p of None \<Rightarrow> s | Some node \<Rightarrow> s\<lparr>deleted := deleted s @ [node]\<rparr>)"

subsection \<open>Failures\<close>

text \<open>
  A member function returns, fails, or does not return. A failure is a failed Qt
  assertion, a call through a null handle, or an exception that leaves the function.
\<close>

datatype failure = AssertionFailure | NullDereference | Exception exn

datatype 'a outcome = Returned 'a | Failed failure | Blocked

text \<open>
  Modelled from the spec: \<^verbatim>\<open>Q_ASSERT\<close> and \<^verbatim>\<open>Q_CHECK_PTR\<close> are macros of Qt, outside
  the source tree. The spec has them fail fast, as an assertion-level contract violation:
  when the condition is false, or the pointer null, the function ends there with
  \<open>AssertionFailure\<close>.
\<close>

definition Q_ASSERT :: "bool \<Rightarrow> failure + unit" where
  "Q_ASSERT cond = (if cond then Inr () else Inl AssertionFailure)"

definition Q_CHECK_PTR :: "'p option \<Rightarrow> failure + unit" where
  "Q_CHECK_PTR p = (case p of None \<Rightarrow> Inl AssertionFailure | Some x \<Rightarrow> Inr ())"

text \<open>\<^verbatim>\<open>m_node->f(...)\<close>: the call through the slot, and what it throws.\<close>

definition through :: "node option \<Rightarrow> (node \<Rightarrow> exn + 'a) \<Rightarrow> failure + 'a" where
  "through p f =
     (case p of
        None \<Rightarrow> Inl NullDereference
      | Some node \<Rightarrow> (case f node of Inl e \<Rightarrow> Inl (Exception e) | Inr v \<Rightarrow> Inr v))"

subsection \<open>The read accessors\<close>

definition getPeerCount :: "env \<Rightarrow> adapter \<Rightarrow> failure + 64 word" where
  "getPeerCount env s =
     (case Q_ASSERT (m_node s \<noteq> None) of
        Inl f \<Rightarrow> Inl f
      | Inr u \<Rightarrow> through (m_node s) (node_getPeerCount (ops env)))"

text \<open>The handler takes a \<^verbatim>\<open>std::runtime_error\<close> only, and the function then returns the empty string.\<close>

definition convertPaymentId :: "env \<Rightarrow> adapter \<Rightarrow> string \<Rightarrow> failure + string" where
  "convertPaymentId env s paymentIdString =
     (case Q_CHECK_PTR (m_node s) of
        Inl f \<Rightarrow> Inl f
      | Inr u \<Rightarrow>
          (case through (m_node s) (\<lambda>node. node_convertPaymentId (ops env) node (toStdString paymentIdString)) of
             Inl (Exception RuntimeError) \<Rightarrow> Inr []
           | Inl f \<Rightarrow> Inl f
           | Inr r \<Rightarrow> Inr r))"

definition fromStdString :: "string \<Rightarrow> string" where
  "fromStdString x = x"

definition extractPaymentId :: "env \<Rightarrow> adapter \<Rightarrow> string \<Rightarrow> failure + string" where
  "extractPaymentId env s extra =
     (case Q_CHECK_PTR (m_node s) of
        Inl f \<Rightarrow> Inl f
      | Inr u \<Rightarrow>
          (case through (m_node s) (\<lambda>node. node_extractPaymentId (ops env) node extra) of
             Inl f \<Rightarrow> Inl f
           | Inr r \<Rightarrow> Inr (fromStdString r)))"

definition createWallet :: "env \<Rightarrow> adapter \<Rightarrow> failure + nat" where
  "createWallet env s =
     (case Q_CHECK_PTR (m_node s) of
        Inl f \<Rightarrow> Inl f
      | Inr u \<Rightarrow> through (m_node s) (node_createWallet (ops env)))"

definition getLastKnownBlockHeight :: "env \<Rightarrow> adapter \<Rightarrow> failure + 64 word" where
  "getLastKnownBlockHeight env s =
     (case Q_CHECK_PTR (m_node s) of
        Inl f \<Rightarrow> Inl f
      | Inr u \<Rightarrow> through (m_node s) (node_getLastKnownBlockHeight (ops env)))"

definition getLastLocalBlockHeight :: "env \<Rightarrow> adapter \<Rightarrow> failure + 64 word" where
  "getLastLocalBlockHeight env s =
     (case Q_CHECK_PTR (m_node s) of
        Inl f \<Rightarrow> Inl f
      | Inr u \<Rightarrow> through (m_node s) (node_getLastLocalBlockHeight (ops env)))"

text \<open>
  \<^verbatim>\<open>QDateTime::fromTime_t\<close> takes an unsigned 32-bit number of seconds, so the 64-bit
  timestamp of the handle is cut to its low 32 bits; the result is a time in UTC.
\<close>

datatype qdatetime = QDateTime_UTC "32 word"

definition fromTime_t :: "32 word \<Rightarrow> qdatetime" where
  "fromTime_t secs = QDateTime_UTC secs"

definition getLastLocalBlockTimestamp :: "env \<Rightarrow> adapter \<Rightarrow> failure + qdatetime" where
  "getLastLocalBlockTimestamp env s =
     (case Q_CHECK_PTR (m_node s) of
        Inl f \<Rightarrow> Inl f
      | Inr u \<Rightarrow>
          (case through (m_node s) (node_getLastLocalBlockTimestamp (ops env)) of
             Inl f \<Rightarrow> Inl f
           | Inr ts \<Rightarrow> Inr (fromTime_t (ucast ts))))"

subsection \<open>The relay of the callbacks\<close>

definition peerCountUpdated :: "64 word \<Rightarrow> adapter \<Rightarrow> adapter" where
  "peerCountUpdated count s = emit_adapter (PeerCountUpdatedSignal count) s"

definition localBlockchainUpdated :: "64 word \<Rightarrow> adapter \<Rightarrow> adapter" where
  "localBlockchainUpdated height s = emit_adapter (LocalBlockchainUpdatedSignal height) s"

definition lastKnownBlockHeightUpdated :: "64 word \<Rightarrow> adapter \<Rightarrow> adapter" where
  "lastKnownBlockHeightUpdated height s = emit_adapter (LastKnownBlockHeightUpdatedSignal height) s"

subsection \<open>The worker: \<^verbatim>\<open>InProcessNodeInitializer\<close>\<close>

text \<open>
  \<^verbatim>\<open>QCoreApplication::processEvents()\<close> on the worker's thread: the worker has no other
  event pending, so nothing happens.
\<close>

definition processEvents :: "adapter \<Rightarrow> adapter" where
  "processEvents s = s"

text \<open>The completion callback that \<^verbatim>\<open>start\<close> hands to the \<^verbatim>\<open>init\<close> of the handle.\<close>

definition start_callback :: "int \<Rightarrow> adapter \<Rightarrow> adapter" where
  "start_callback err s =
     (if err \<noteq> 0
      then processEvents (emit_initializer (NodeInitFailedSignal err) s)
      else processEvents (emit_initializer NodeInitCompletedSignal s))"

definition createInprocessNode :: "env \<Rightarrow> core_config \<Rightarrow> net_node_config \<Rightarrow> exn + node" where
  "createInprocessNode env coreConfig netNodeConfig =
     (case createInprocessNode_throws env of
        Some e \<Rightarrow> Inl e
      | None \<Rightarrow> Inr (InprocessNode coreConfig netNodeConfig))"

text \<open>
  The \<^verbatim>\<open>init\<close> of the in-process handle: it calls the callback with the codes that
  the run gives, in order, and ends as the run says.
\<close>

definition inprocess_node_init :: "env \<Rightarrow> (int \<Rightarrow> adapter \<Rightarrow> adapter) \<Rightarrow> adapter \<Rightarrow> init_end \<times> adapter" where
  "inprocess_node_init env callback s =
     (inprocess_init_end env, foldl (\<lambda>s' err. callback err s') s (inprocess_init_callback env))"

text \<open>The end of \<^verbatim>\<open>start\<close>, after the \<^verbatim>\<open>init\<close> call has returned.\<close>

definition start_after_init :: "adapter \<Rightarrow> adapter" where
  "start_after_init s =
     (let s = delete_node (m_node s) s;
          s = s\<lparr>m_node := None\<rparr>
      in emit_initializer NodeDeinitCompletedSignal s)"

text \<open>
  Where the worker stands in \<^verbatim>\<open>start\<close> after the line that makes the handle and the
  \<^verbatim>\<open>try\<close> block: an exception has left \<^verbatim>\<open>start\<close>; \<^verbatim>\<open>start\<close> has returned; the
  \<^verbatim>\<open>init\<close> call has returned and the last three lines are still to run; or the
  \<^verbatim>\<open>init\<close> call is still running.
\<close>

datatype start_phase = Escaped exn | StartReturned | InitReturned | InitRunning

text \<open>
  \<^verbatim>\<open>start\<close> up to the end of the \<^verbatim>\<open>try\<close> block. The handle is made before the
  \<^verbatim>\<open>try\<close> block, which holds the \<^verbatim>\<open>init\<close> call only; the handler returns from
  \<^verbatim>\<open>start\<close>.
\<close>

definition start_try :: "env \<Rightarrow> core_config \<Rightarrow> net_node_config \<Rightarrow> adapter \<Rightarrow> start_phase \<times> adapter" where
  "start_try env coreConfig netNodeConfig s =
     (case createInprocessNode env coreConfig netNodeConfig of
        Inl e \<Rightarrow> (Escaped e, s)
      | Inr node \<Rightarrow>
          (let s = s\<lparr>m_node := Some node\<rparr> in
           case inprocess_node_init env start_callback s of
             (InitThrows RuntimeError, s) \<Rightarrow>
               (let s = emit_initializer (NodeInitFailedSignal (INTERNAL_WALLET_ERROR env)) s;
                    s = processEvents s
                in (StartReturned, s))
           | (InitThrows OtherException, s) \<Rightarrow> (Escaped OtherException, s)
           | (InitBlocks, s) \<Rightarrow> (InitRunning, s\<lparr>initializer_in_init := True\<rparr>)
           | (InitReturns, s) \<Rightarrow> (InitReturned, s)))"

text \<open>
  The rest of \<^verbatim>\<open>start\<close>: the last three lines when the \<^verbatim>\<open>init\<close> call has returned. The
  result is \<open>Blocked\<close> while the worker is inside \<^verbatim>\<open>init\<close>.
\<close>

definition start_rest :: "start_phase \<Rightarrow> adapter \<Rightarrow> unit outcome \<times> adapter" where
  "start_rest phase s =
     (case phase of
        Escaped e \<Rightarrow> (Failed (Exception e), s)
      | StartReturned \<Rightarrow> (Returned (), s)
      | InitReturned \<Rightarrow> (Returned (), start_after_init s)
      | InitRunning \<Rightarrow> (Blocked, s))"

definition start :: "env \<Rightarrow> core_config \<Rightarrow> net_node_config \<Rightarrow> adapter \<Rightarrow> unit outcome \<times> adapter" where
  "start env coreConfig netNodeConfig s =
     (case start_try env coreConfig netNodeConfig s of (phase, s) \<Rightarrow> start_rest phase s)"

text \<open>
  The \<^verbatim>\<open>deinit\<close> of a handle: when the worker has not left \<^verbatim>\<open>start\<close>, the \<^verbatim>\<open>init\<close>
  call returns and the worker runs \<^verbatim>\<open>start\<close> to its end.
\<close>

definition node_deinit :: "adapter \<Rightarrow> adapter" where
  "node_deinit s =
     (if initializer_in_init s
      then start_after_init (s\<lparr>initializer_in_init := False\<rparr>)
      else s)"

definition stop :: "adapter \<Rightarrow> unit outcome \<times> adapter" where
  "stop s =
     (case Q_CHECK_PTR (m_node s) of
        Inl f \<Rightarrow> (Failed f, s)
      | Inr u \<Rightarrow> (Returned (), node_deinit s))"

subsection \<open>The controller: \<^verbatim>\<open>NodeAdapter\<close>\<close>

text \<open>
  The timer of \<^verbatim>\<open>init\<close>. \<open>fired\<close> records that the timeout signal was emitted; a
  single-shot timer is no longer active after it.
\<close>

record qtimer =
  interval :: int
  singleShot :: bool
  active :: bool
  fired :: bool

definition QTimer :: qtimer where
  "QTimer = \<lparr>interval = 0, singleShot = False, active = False, fired = False\<rparr>"

definition setInterval :: "int \<Rightarrow> qtimer \<Rightarrow> qtimer" where
  "setInterval msec t = t\<lparr>interval := msec\<rparr>"

definition setSingleShot :: "bool \<Rightarrow> qtimer \<Rightarrow> qtimer" where
  "setSingleShot b t = t\<lparr>singleShot := b\<rparr>"

definition timer_start :: "qtimer \<Rightarrow> qtimer" where
  "timer_start t = t\<lparr>active := True\<rparr>"

definition timer_stop :: "qtimer \<Rightarrow> qtimer" where
  "timer_stop t = t\<lparr>active := False\<rparr>"

definition isActive :: "qtimer \<Rightarrow> bool" where
  "isActive t = active t"

definition timer_timeout :: "qtimer \<Rightarrow> qtimer" where
  "timer_timeout t = (if singleShot t then t\<lparr>active := False, fired := True\<rparr> else t\<lparr>fired := True\<rparr>)"

text \<open>
  The wait loop of \<^verbatim>\<open>init\<close>, which dispatches the events one by one in the order of
  arrival. Its \<^verbatim>\<open>quit\<close> is connected to the timeout of the timer, to
  \<^verbatim>\<open>peerCountUpdatedSignal\<close> and to \<^verbatim>\<open>localBlockchainUpdatedSignal\<close>: the first of them
  ends \<^verbatim>\<open>exec\<close>. A last-known-height callback is relayed and the loop goes on. When
  no event ends the loop, \<^verbatim>\<open>exec\<close> does not return.
\<close>

fun waitLoop_exec :: "event list \<Rightarrow> qtimer \<Rightarrow> adapter \<Rightarrow> (qtimer \<times> adapter) option" where
  "waitLoop_exec [] t s = None"
| "waitLoop_exec (TimerTimeout # evs) t s = Some (timer_timeout t, s)"
| "waitLoop_exec (NodeCallback (PeerCountUpdated count) # evs) t s = Some (t, peerCountUpdated count s)"
| "waitLoop_exec (NodeCallback (LocalBlockchainUpdated height) # evs) t s =
     Some (t, localBlockchainUpdated height s)"
| "waitLoop_exec (NodeCallback (LastKnownBlockHeightUpdated height) # evs) t s =
     waitLoop_exec evs t (lastKnownBlockHeightUpdated height s)"

text \<open>
  The wait loop of \<^verbatim>\<open>initInProcessNode\<close>, on the signals of the worker: its \<^verbatim>\<open>quit\<close>
  is connected to \<^verbatim>\<open>nodeInitCompletedSignal\<close> and its \<^verbatim>\<open>exit\<close> to
  \<^verbatim>\<open>nodeInitFailedSignal\<close>, whose code is the return code of \<^verbatim>\<open>exec\<close>. The constructor
  of the adapter has connected the worker's \<^verbatim>\<open>nodeInitCompletedSignal\<close> to the adapter's
  own, earlier than the loop, so the adapter's signal is emitted first.
\<close>

fun inprocess_waitLoop_exec :: "initializer_signal list \<Rightarrow> adapter \<Rightarrow> (int \<times> adapter) option" where
  "inprocess_waitLoop_exec [] s = None"
| "inprocess_waitLoop_exec (NodeInitCompletedSignal # sigs) s =
     Some (0, emit_adapter AdapterNodeInitCompletedSignal s)"
| "inprocess_waitLoop_exec (NodeInitFailedSignal code # sigs) s = Some (code, s)"
| "inprocess_waitLoop_exec (NodeDeinitCompletedSignal # sigs) s = inprocess_waitLoop_exec sigs s"

text \<open>The adapter as the sink of the callbacks of a handle.\<close>

definition relay_callback :: "node_callback \<Rightarrow> adapter \<Rightarrow> adapter" where
  "relay_callback cb s =
     (case cb of
        PeerCountUpdated count \<Rightarrow> peerCountUpdated count s
      | LocalBlockchainUpdated height \<Rightarrow> localBlockchainUpdated height s
      | LastKnownBlockHeightUpdated height \<Rightarrow> lastKnownBlockHeightUpdated height s)"

fun teardown_rank :: "teardown_point \<Rightarrow> nat" where
  "teardown_rank BeforeLocalHeightQuery = 0"
| "teardown_rank BeforeKnownHeightQuery = 1"
| "teardown_rank BeforeReturn = 2"
| "teardown_rank AfterReturn = 3"

text \<open>
  The worker as the adapter finds it at a point of \<^verbatim>\<open>initInProcessNode\<close>: when the
  \<^verbatim>\<open>init\<close> call has returned and the run puts the last three lines of \<^verbatim>\<open>start\<close> at
  that point or earlier, they have run.
\<close>

definition worker_by :: "env \<Rightarrow> teardown_point \<Rightarrow> start_phase \<times> adapter \<Rightarrow> start_phase \<times> adapter" where
  "worker_by env point w =
     (case w of
        (InitReturned, s) \<Rightarrow>
          if teardown_rank (teardown env) \<le> teardown_rank point
          then (StartReturned, start_after_init s)
          else (InitReturned, s)
      | (phase, s) \<Rightarrow> (phase, s))"

text \<open>
  The way out of \<^verbatim>\<open>initInProcessNode\<close> after its wait: the state is the one at that
  moment, and it records a worker that has not yet run the last three lines of
  \<^verbatim>\<open>start\<close>.
\<close>

definition initInProcessNode_return :: "env \<Rightarrow> 'a outcome \<Rightarrow> start_phase \<times> adapter \<Rightarrow> 'a outcome \<times> adapter" where
  "initInProcessNode_return env r w =
     (case worker_by env BeforeReturn w of
        (InitReturned, s) \<Rightarrow> (r, s\<lparr>initializer_in_init := True\<rparr>)
      | (phase, s) \<Rightarrow> (r, s))"

text \<open>
  The end of \<^verbatim>\<open>initInProcessNode\<close> after a wait that ended with code 0: each height is
  queried through the slot as the worker has left it by then, and republished.
\<close>

definition initInProcessNode_heights :: "env \<Rightarrow> start_phase \<times> adapter \<Rightarrow> bool outcome \<times> adapter" where
  "initInProcessNode_heights env w =
     (case worker_by env BeforeLocalHeightQuery w of
        (phase, s) \<Rightarrow>
          (case getLastLocalBlockHeight env s of
             Inl f \<Rightarrow> initInProcessNode_return env (Failed f) (phase, s)
           | Inr localHeight \<Rightarrow>
               (let s = emit_adapter (LocalBlockchainUpdatedSignal localHeight) s in
                case worker_by env BeforeKnownHeightQuery (phase, s) of
                  (phase, s) \<Rightarrow>
                    (case getLastKnownBlockHeight env s of
                       Inl f \<Rightarrow> initInProcessNode_return env (Failed f) (phase, s)
                     | Inr knownHeight \<Rightarrow>
                         initInProcessNode_return env (Returned True)
                           (phase, emit_adapter (LastKnownBlockHeightUpdatedSignal knownHeight) s)))))"

text \<open>
  \<^verbatim>\<open>initInProcessNode\<close>. The queued \<^verbatim>\<open>initNodeSignal\<close> runs \<^verbatim>\<open>start\<close> on the worker,
  with \<^verbatim>\<open>&m_node\<close> as the slot. The wait loop relays the callbacks that the handle makes
  meanwhile and takes the signals that the worker has emitted up to the end of its
  \<^verbatim>\<open>try\<close> block, in the order of emission; the first completion signal ends it. What
  the worker does after the \<^verbatim>\<open>init\<close> call has returned falls where the run says. An
  exception that leaves \<^verbatim>\<open>start\<close> ends the program. When the wait never ends, the
  worker runs \<^verbatim>\<open>start\<close> to its end.
\<close>

definition initInProcessNode :: "env \<Rightarrow> adapter \<Rightarrow> bool outcome \<times> adapter" where
  "initInProcessNode env s =
     (case Q_ASSERT (m_node s = None) of
        Inl f \<Rightarrow> (Failed f, s)
      | Inr u \<Rightarrow>
          (let s = s\<lparr>thread_isRunning := True\<rparr>;
               coreConfig = makeCoreConfig (settings_instance env);
               netNodeConfig = makeNetNodeConfig (settings_instance env);
               s = emit_adapter (InitNodeSignal coreConfig netNodeConfig) s;
               emitted_before = length (initializer_emitted s)
           in case start_try env coreConfig netNodeConfig s of
                (Escaped e, s) \<Rightarrow> (Failed (Exception e), s)
              | (phase, s) \<Rightarrow>
                  (let s = foldl (\<lambda>s' cb. relay_callback cb s') s (inprocess_wait_callbacks env) in
                   case inprocess_waitLoop_exec (drop emitted_before (initializer_emitted s)) s of
                     None \<Rightarrow> (Blocked, snd (worker_by env AfterReturn (phase, s)))
                   | Some (code, s) \<Rightarrow>
                       if code \<noteq> 0 then initInProcessNode_return env (Returned False) (phase, s)
                       else initInProcessNode_heights env (phase, s))))"

definition createRpcNode :: "string \<Rightarrow> int \<Rightarrow> node" where
  "createRpcNode host port = RpcNode host port"

text \<open>The completion callback that \<^verbatim>\<open>init\<close> hands to the RPC handle: the code is unused.\<close>

definition init_callback :: "int \<Rightarrow> adapter \<Rightarrow> adapter" where
  "init_callback err s = s"

text \<open>The \<^verbatim>\<open>init\<close> of the RPC handle delivers the code of the run to the callback.\<close>

definition rpc_node_init :: "env \<Rightarrow> (int \<Rightarrow> adapter \<Rightarrow> adapter) \<Rightarrow> adapter \<Rightarrow> adapter" where
  "rpc_node_init env callback s = callback (rpc_init_error env) s"

text \<open>
  \<^verbatim>\<open>init\<close>, with the local timer as it is at the end as a third component.
  \<^verbatim>\<open>QUrl::fromUserInput\<close> of the text \<^verbatim>\<open>127.0.0.1:\<close> and the port gives that host and that port.
\<close>

definition init_run :: "env \<Rightarrow> adapter \<Rightarrow> bool outcome \<times> adapter \<times> qtimer" where
  "init_run env s =
     (case Q_ASSERT (m_node s = None) of
        Inl f \<Rightarrow> (Failed f, s, QTimer)
      | Inr u \<Rightarrow>
          (let localNodeUrl = (''127.0.0.1'', RPC_DEFAULT_PORT env);
               s = s\<lparr>m_node := Some (createRpcNode (fst localNodeUrl) (snd localNodeUrl))\<rparr>;
               initTimer = QTimer;
               initTimer = setInterval 3000 initTimer;
               initTimer = setSingleShot True initTimer;
               initTimer = timer_start initTimer;
               s = rpc_node_init env init_callback s
           in case waitLoop_exec (waitLoop_events env) initTimer s of
                None \<Rightarrow> (Blocked, s, initTimer)
              | Some (initTimer, s) \<Rightarrow>
                  if isActive initTimer
                  then (let initTimer = timer_stop initTimer;
                            s = emit_adapter AdapterNodeInitCompletedSignal s
                        in (Returned True, s, initTimer))
                  else (let s = delete_node (m_node s) s;
                            s = s\<lparr>m_node := None\<rparr>
                        in case initInProcessNode env s of (r, s) \<Rightarrow> (r, s, initTimer))))"

definition init :: "env \<Rightarrow> adapter \<Rightarrow> bool outcome \<times> adapter" where
  "init env s = (case init_run env s of (r, s, initTimer) \<Rightarrow> (r, s))"

text \<open>
  The wait loop of \<^verbatim>\<open>deinit\<close>, on the signals that the worker has emitted since
  \<^verbatim>\<open>stop\<close>: only \<^verbatim>\<open>nodeDeinitCompletedSignal\<close> ends it.
\<close>

fun deinit_waitLoop_exec :: "initializer_signal list \<Rightarrow> bool" where
  "deinit_waitLoop_exec [] = False"
| "deinit_waitLoop_exec (NodeDeinitCompletedSignal # sigs) = True"
| "deinit_waitLoop_exec (NodeInitCompletedSignal # sigs) = deinit_waitLoop_exec sigs"
| "deinit_waitLoop_exec (NodeInitFailedSignal code # sigs) = deinit_waitLoop_exec sigs"

definition deinit :: "adapter \<Rightarrow> unit outcome \<times> adapter" where
  "deinit s =
     (case m_node s of
        None \<Rightarrow> (Returned (), s)
      | Some node \<Rightarrow>
          if thread_isRunning s
          then (let emitted_before = length (initializer_emitted s) in
                case stop s of
                  (Returned u, s) \<Rightarrow>
                    if deinit_waitLoop_exec (drop emitted_before (initializer_emitted s))
                    then (Returned (), s\<lparr>thread_isRunning := False\<rparr>)
                    else (Blocked, s)
                | (other, s) \<Rightarrow> (other, s))
          else (let s = delete_node (m_node s) s;
                    s = s\<lparr>m_node := None\<rparr>
                in (Returned (), s)))"

subsection \<open>Orders of arrival\<close>

text \<open>
  The two notifications that end the wait of \<^verbatim>\<open>init\<close> as a sign of life, and whether one
  of them arrives before the timer fires.
\<close>

fun is_liveness :: "event \<Rightarrow> bool" where
  "is_liveness (NodeCallback (PeerCountUpdated count)) = True"
| "is_liveness (NodeCallback (LocalBlockchainUpdated height)) = True"
| "is_liveness (NodeCallback (LastKnownBlockHeightUpdated height)) = False"
| "is_liveness TimerTimeout = False"

fun is_timeout :: "event \<Rightarrow> bool" where
  "is_timeout TimerTimeout = True"
| "is_timeout (NodeCallback cb) = False"

definition before_timer :: "event list \<Rightarrow> event list" where
  "before_timer evs = takeWhile (\<lambda>e. \<not> is_timeout e) evs"

definition liveness_before_timer :: "event list \<Rightarrow> bool" where
  "liveness_before_timer evs = list_ex is_liveness (before_timer evs)"

definition timer_fires :: "event list \<Rightarrow> bool" where
  "timer_fires evs = list_ex is_timeout evs"

fun is_InitNodeSignal :: "adapter_signal \<Rightarrow> bool" where
  "is_InitNodeSignal (InitNodeSignal coreConfig netNodeConfig) = True"
| "is_InitNodeSignal other = False"

fun is_height_signal :: "adapter_signal \<Rightarrow> bool" where
  "is_height_signal (LocalBlockchainUpdatedSignal height) = True"
| "is_height_signal (LastKnownBlockHeightUpdatedSignal height) = True"
| "is_height_signal other = False"

text \<open>The signal that the callback of \<^verbatim>\<open>start\<close> emits for a code.\<close>

definition callback_signal :: "int \<Rightarrow> initializer_signal" where
  "callback_signal err = (if err \<noteq> 0 then NodeInitFailedSignal err else NodeInitCompletedSignal)"

subsection \<open>What the adapter sees of the worker\<close>

text \<open>
  The signals that end the wait of \<^verbatim>\<open>initInProcessNode\<close>, the phases in which an
  exception has left \<^verbatim>\<open>start\<close>, the run of \<^verbatim>\<open>start\<close> up to the end of its \<^verbatim>\<open>try\<close>
  block that \<^verbatim>\<open>initInProcessNode\<close> sets off on a state, and the signals that this run
  emits. \<open>callback_relayed\<close> is the adapter's signal for a callback, and \<open>relayed\<close>
  lists the adapter's signals that the wait loop of \<^verbatim>\<open>init\<close> relays until it ends.
\<close>

fun is_completion :: "initializer_signal \<Rightarrow> bool" where
  "is_completion NodeInitCompletedSignal = True"
| "is_completion (NodeInitFailedSignal code) = True"
| "is_completion NodeDeinitCompletedSignal = False"

fun is_Escaped :: "start_phase \<Rightarrow> bool" where
  "is_Escaped (Escaped e) = True"
| "is_Escaped StartReturned = False"
| "is_Escaped InitReturned = False"
| "is_Escaped InitRunning = False"

definition worker_try :: "env \<Rightarrow> adapter \<Rightarrow> start_phase \<times> adapter" where
  "worker_try env s =
     start_try env (makeCoreConfig (settings_instance env)) (makeNetNodeConfig (settings_instance env))
       (emit_adapter (InitNodeSignal (makeCoreConfig (settings_instance env))
                                     (makeNetNodeConfig (settings_instance env)))
          (s\<lparr>thread_isRunning := True\<rparr>))"

definition worker_emitted :: "env \<Rightarrow> adapter \<Rightarrow> initializer_signal list" where
  "worker_emitted env s = drop (length (initializer_emitted s)) (initializer_emitted (snd (worker_try env s)))"

fun callback_relayed :: "node_callback \<Rightarrow> adapter_signal" where
  "callback_relayed (PeerCountUpdated count) = PeerCountUpdatedSignal count"
| "callback_relayed (LocalBlockchainUpdated height) = LocalBlockchainUpdatedSignal height"
| "callback_relayed (LastKnownBlockHeightUpdated height) = LastKnownBlockHeightUpdatedSignal height"

fun relayed :: "event list \<Rightarrow> adapter_signal list" where
  "relayed [] = []"
| "relayed (TimerTimeout # evs) = []"
| "relayed (NodeCallback (PeerCountUpdated count) # evs) = [PeerCountUpdatedSignal count]"
| "relayed (NodeCallback (LocalBlockchainUpdated height) # evs) = [LocalBlockchainUpdatedSignal height]"
| "relayed (NodeCallback (LastKnownBlockHeightUpdated height) # evs) =
     LastKnownBlockHeightUpdatedSignal height # relayed evs"


subsection \<open>Concrete runs\<close>

text \<open>The state that the constructor of \<^verbatim>\<open>NodeAdapter\<close> leaves.\<close>

definition NodeAdapter :: adapter where
  "NodeAdapter = \<lparr>m_node = None, thread_isRunning = False, initializer_in_init = False,
                   initializer_emitted = [], adapter_emitted = [], deleted = []\<rparr>"

definition example_settings :: settings where
  "example_settings =
     \<lparr>getDataDir = ''/home/user/.wallet'', getP2pBindIp = ''0.0.0.0'', getP2pBindPort = 17336,
      getP2pExternalPort = 0, hasAllowLocalIpOption = False, hasHideMyPortOption = True,
      getPeers = [''10.0.0.1:17336''], getPriorityNodes = [], getExclusiveNodes = [],
      getSeedNodes = [''10.0.0.2:17336'', ''10.0.0.3:17336''], isTestnet = False\<rparr>"

text \<open>A handle whose operations all return, and one whose operations all throw.\<close>

definition serving_ops :: node_ops where
  "serving_ops =
     \<lparr>node_getPeerCount = (\<lambda>node. Inr 5),
      node_getLastKnownBlockHeight = (\<lambda>node. Inr 120),
      node_getLastLocalBlockHeight = (\<lambda>node. Inr 100),
      node_getLastLocalBlockTimestamp = (\<lambda>node. Inr 1650000000),
      node_convertPaymentId = (\<lambda>node paymentIdString. Inr paymentIdString),
      node_extractPaymentId = (\<lambda>node extra. Inr []),
      node_createWallet = (\<lambda>node. Inr 1)\<rparr>"

definition throwing_ops :: node_ops where
  "throwing_ops =
     \<lparr>node_getPeerCount = (\<lambda>node. Inl RuntimeError),
      node_getLastKnownBlockHeight = (\<lambda>node. Inl RuntimeError),
      node_getLastLocalBlockHeight = (\<lambda>node. Inl RuntimeError),
      node_getLastLocalBlockTimestamp = (\<lambda>node. Inl RuntimeError),
      node_convertPaymentId = (\<lambda>node paymentIdString. Inl RuntimeError),
      node_extractPaymentId = (\<lambda>node extra. Inl RuntimeError),
      node_createWallet = (\<lambda>node. Inl RuntimeError)\<rparr>"

text \<open>
  A run in which the RPC peer answers with a peer count of 5 before the timer fires, and
  in which the in-process handle, if it comes to that, reports a peer count of 3 and
  success, and serves.
\<close>

definition example_env :: env where
  "example_env =
     \<lparr>settings_instance = example_settings, RPC_DEFAULT_PORT = 8081, INTERNAL_WALLET_ERROR = 5,
      ops = serving_ops, rpc_init_error = 0,
      waitLoop_events = [NodeCallback (LastKnownBlockHeightUpdated 120), NodeCallback (PeerCountUpdated 5),
                         TimerTimeout],
      createInprocessNode_throws = None, inprocess_init_callback = [0],
      inprocess_init_end = InitBlocks,
      inprocess_wait_callbacks = [PeerCountUpdated 3], teardown = AfterReturn\<rparr>"

definition rpc_connected :: adapter where
  "rpc_connected = NodeAdapter\<lparr>m_node := Some (RpcNode ''127.0.0.1'' 8081)\<rparr>"

text \<open>
  An adapter whose in-process handle serves, after the RPC attempt was given up; and an
  order of arrival in which the peer count comes after the timer has fired.
\<close>

definition inprocess_serving :: adapter where
  "inprocess_serving =
     \<lparr>m_node = Some (InprocessNode (makeCoreConfig example_settings) (makeNetNodeConfig example_settings)),
      thread_isRunning = True, initializer_in_init = True,
      initializer_emitted = [NodeInitCompletedSignal],
      adapter_emitted = [InitNodeSignal (makeCoreConfig example_settings) (makeNetNodeConfig example_settings),
                         AdapterNodeInitCompletedSignal, LocalBlockchainUpdatedSignal 100,
                         LastKnownBlockHeightUpdatedSignal 120],
      deleted = [RpcNode ''127.0.0.1'' 8081]\<rparr>"

definition timeout_events :: "event list" where
  "timeout_events = [NodeCallback (LastKnownBlockHeightUpdated 120), TimerTimeout,
                     NodeCallback (PeerCountUpdated 5)]"


section \<open>The configuration snapshot\<close>

lemma convertStringListToVector_foldl:
  "foldl (\<lambda>result item. result @ [toStdString item]) acc list = acc @ list"
  by (induction list arbitrary: acc) (simp_all add: toStdString_def)

lemma convertStringListToVector_id: "convertStringListToVector list = list"
  by (simp add: convertStringListToVector_def convertStringListToVector_foldl)

lemma options_insert_apply:
  "options_insert k v m k' =
     (if k' = k then (case m k of None \<Rightarrow> Some v | Some old \<Rightarrow> Some old) else m k')"
  by (simp add: options_insert_def split: option.splits)

text \<open>
  C10: for every settings state, the snapshot built by \<^verbatim>\<open>makeNetNodeConfig\<close> holds the
  options \<^verbatim>\<open>p2p-bind-ip\<close>, \<^verbatim>\<open>p2p-bind-port\<close>, \<^verbatim>\<open>p2p-external-port\<close>,
  \<^verbatim>\<open>allow-local-ip\<close>, \<^verbatim>\<open>hide-my-port\<close> and \<^verbatim>\<open>data-dir\<close>, each with the value of
  the settings, and the testnet flag of the settings; it holds \<^verbatim>\<open>add-peer\<close>,
  \<^verbatim>\<open>add-priority-node\<close>, \<^verbatim>\<open>add-exclusive-node\<close> and \<^verbatim>\<open>seed-node\<close> exactly when
  the list of the settings is not empty.
\<close>

theorem makeNetNodeConfig_options:
  "net_options (makeNetNodeConfig st) ''p2p-bind-ip'' =
     Some \<lparr>held = AnyString (getP2pBindIp st), defaulted = False\<rparr>
   \<and> net_options (makeNetNodeConfig st) ''p2p-bind-port'' =
     Some \<lparr>held = AnyUInt16 (word_of_int (getP2pBindPort st)), defaulted = False\<rparr>
   \<and> net_options (makeNetNodeConfig st) ''p2p-external-port'' =
     Some \<lparr>held = AnyUInt16 (word_of_int (getP2pExternalPort st)), defaulted = False\<rparr>
   \<and> net_options (makeNetNodeConfig st) ''allow-local-ip'' =
     Some \<lparr>held = AnyBool (hasAllowLocalIpOption st), defaulted = False\<rparr>
   \<and> net_options (makeNetNodeConfig st) ''hide-my-port'' =
     Some \<lparr>held = AnyBool (hasHideMyPortOption st), defaulted = False\<rparr>
   \<and> net_options (makeNetNodeConfig st) ''data-dir'' =
     Some \<lparr>held = AnyString (getDataDir st), defaulted = False\<rparr>
   \<and> testnet (makeNetNodeConfig st) = isTestnet st
   \<and> ((''add-peer'' \<in> dom (net_options (makeNetNodeConfig st))) = (getPeers st \<noteq> []))
   \<and> ((''add-priority-node'' \<in> dom (net_options (makeNetNodeConfig st))) = (getPriorityNodes st \<noteq> []))
   \<and> ((''add-exclusive-node'' \<in> dom (net_options (makeNetNodeConfig st))) = (getExclusiveNodes st \<noteq> []))
   \<and> ((''seed-node'' \<in> dom (net_options (makeNetNodeConfig st))) = (getSeedNodes st \<noteq> []))"
  by (simp add: makeNetNodeConfig_def Let_def NetNodeConfig_init_def setTestnet_def
      convertStringListToVector_id options_insert_apply toStdString_def dom_def)

section \<open>The read accessors\<close>

text \<open>
  C7: each of the seven read accessors, called while the handle slot is null, ends with
  an assertion failure; none of them reaches the call through the null handle or returns
  a value.
\<close>

theorem accessors_assert_handle:
  assumes "m_node s = None"
  shows "getPeerCount env s = Inl AssertionFailure
       \<and> getLastKnownBlockHeight env s = Inl AssertionFailure
       \<and> getLastLocalBlockHeight env s = Inl AssertionFailure
       \<and> getLastLocalBlockTimestamp env s = Inl AssertionFailure
       \<and> convertPaymentId env s paymentIdString = Inl AssertionFailure
       \<and> extractPaymentId env s extra = Inl AssertionFailure
       \<and> createWallet env s = Inl AssertionFailure"
  using assms
  by (simp add: getPeerCount_def getLastKnownBlockHeight_def getLastLocalBlockHeight_def
      getLastLocalBlockTimestamp_def convertPaymentId_def extractPaymentId_def createWallet_def
      Q_ASSERT_def Q_CHECK_PTR_def)

theorem accessors_assert_handle_witness:
  "m_node NodeAdapter = None
   \<and> getPeerCount example_env NodeAdapter = Inl AssertionFailure
   \<and> getLastKnownBlockHeight example_env NodeAdapter = Inl AssertionFailure
   \<and> getLastLocalBlockHeight example_env NodeAdapter = Inl AssertionFailure
   \<and> getLastLocalBlockTimestamp example_env NodeAdapter = Inl AssertionFailure
   \<and> convertPaymentId example_env NodeAdapter ''00ff'' = Inl AssertionFailure
   \<and> extractPaymentId example_env NodeAdapter ''00ff'' = Inl AssertionFailure
   \<and> createWallet example_env NodeAdapter = Inl AssertionFailure"
proof -
  have null: "m_node NodeAdapter = None"
    by (simp add: NodeAdapter_def)
  show ?thesis
    using null accessors_assert_handle [OF null, of example_env "''00ff''" "''00ff''"] by simp
qed

text \<open>
  C8, as the spec has it: every read accessor swallows a failure of the handle and
  returns an empty value. \<^verbatim>\<open>extractPaymentId\<close> has no handler: with a handle whose
  \<^verbatim>\<open>extractPaymentId\<close> throws, the exception leaves the accessor.
\<close>

theorem extractPaymentId_counterexample:
  "node_extractPaymentId throwing_ops (RpcNode ''127.0.0.1'' 8081) ''00ff'' = Inl RuntimeError
   \<and> extractPaymentId (example_env\<lparr>ops := throwing_ops\<rparr>) rpc_connected ''00ff''
       = Inl (Exception RuntimeError)"
  by (simp add: extractPaymentId_def Q_CHECK_PTR_def through_def rpc_connected_def NodeAdapter_def
      example_env_def throwing_ops_def)

text \<open>
  C8, amended: with a handle in the slot, \<^verbatim>\<open>convertPaymentId\<close> swallows a
  \<^verbatim>\<open>std::runtime_error\<close> of the handle and returns the empty string, and lets any other
  exception through; each of the other six accessors lets every exception of its handle
  operation through to the caller.
\<close>

theorem convertPaymentId_swallows_runtime_error:
  assumes "m_node s = Some node"
  shows "(node_convertPaymentId (ops env) node (toStdString paymentIdString) = Inl RuntimeError \<longrightarrow>
            convertPaymentId env s paymentIdString = Inr [])
       \<and> (node_convertPaymentId (ops env) node (toStdString paymentIdString) = Inl OtherException \<longrightarrow>
            convertPaymentId env s paymentIdString = Inl (Exception OtherException))
       \<and> (node_extractPaymentId (ops env) node extra = Inl e \<longrightarrow>
            extractPaymentId env s extra = Inl (Exception e))
       \<and> (node_getPeerCount (ops env) node = Inl e \<longrightarrow> getPeerCount env s = Inl (Exception e))
       \<and> (node_getLastKnownBlockHeight (ops env) node = Inl e \<longrightarrow>
            getLastKnownBlockHeight env s = Inl (Exception e))
       \<and> (node_getLastLocalBlockHeight (ops env) node = Inl e \<longrightarrow>
            getLastLocalBlockHeight env s = Inl (Exception e))
       \<and> (node_getLastLocalBlockTimestamp (ops env) node = Inl e \<longrightarrow>
            getLastLocalBlockTimestamp env s = Inl (Exception e))
       \<and> (node_createWallet (ops env) node = Inl e \<longrightarrow> createWallet env s = Inl (Exception e))"
  using assms
  by (simp add: getPeerCount_def getLastKnownBlockHeight_def getLastLocalBlockHeight_def
      getLastLocalBlockTimestamp_def convertPaymentId_def extractPaymentId_def createWallet_def
      Q_ASSERT_def Q_CHECK_PTR_def through_def)

theorem convertPaymentId_swallows_runtime_error_witness:
  "m_node rpc_connected = Some (RpcNode ''127.0.0.1'' 8081)
   \<and> node_convertPaymentId throwing_ops (RpcNode ''127.0.0.1'' 8081) (toStdString ''zz'') = Inl RuntimeError
   \<and> convertPaymentId (example_env\<lparr>ops := throwing_ops\<rparr>) rpc_connected ''zz'' = Inr []
   \<and> node_getPeerCount throwing_ops (RpcNode ''127.0.0.1'' 8081) = Inl RuntimeError
   \<and> getPeerCount (example_env\<lparr>ops := throwing_ops\<rparr>) rpc_connected = Inl (Exception RuntimeError)
   \<and> getLastKnownBlockHeight (example_env\<lparr>ops := throwing_ops\<rparr>) rpc_connected
       = Inl (Exception RuntimeError)
   \<and> createWallet (example_env\<lparr>ops := throwing_ops\<rparr>) rpc_connected = Inl (Exception RuntimeError)"
proof -
  have handle: "m_node rpc_connected = Some (RpcNode ''127.0.0.1'' 8081)"
    by (simp add: rpc_connected_def NodeAdapter_def)
  have throws: "ops (example_env\<lparr>ops := throwing_ops\<rparr>) = throwing_ops"
    by simp
  show ?thesis
    using handle
      convertPaymentId_swallows_runtime_error
        [OF handle, of "example_env\<lparr>ops := throwing_ops\<rparr>" "''zz''" "''zz''" RuntimeError]
    by (simp add: throwing_ops_def)
qed

section \<open>The worker\<close>

lemma foldl_start_callback:
  "foldl (\<lambda>s' err. start_callback err s') s codes =
     s\<lparr>initializer_emitted := initializer_emitted s @ map callback_signal codes\<rparr>"
  by (induction codes arbitrary: s)
     (simp_all add: start_callback_def processEvents_def emit_initializer_def callback_signal_def)

text \<open>\<^verbatim>\<open>start\<close> once the handle is made, by the way the \<^verbatim>\<open>init\<close> call ends.\<close>

lemma start_try_created:
  "createInprocessNode_throws env = None \<Longrightarrow>
   start_try env cc nc s =
     (let s1 = s\<lparr>m_node := Some (InprocessNode cc nc),
                  initializer_emitted := initializer_emitted s @ map callback_signal (inprocess_init_callback env)\<rparr>
      in case inprocess_init_end env of
           InitThrows RuntimeError \<Rightarrow>
             (StartReturned, emit_initializer (NodeInitFailedSignal (INTERNAL_WALLET_ERROR env)) s1)
         | InitThrows OtherException \<Rightarrow> (Escaped OtherException, s1)
         | InitBlocks \<Rightarrow> (InitRunning, s1\<lparr>initializer_in_init := True\<rparr>)
         | InitReturns \<Rightarrow> (InitReturned, s1))"
  by (simp add: start_try_def createInprocessNode_def inprocess_node_init_def foldl_start_callback
      processEvents_def Let_def split: init_end.splits exn.splits)

lemma start_created:
  "createInprocessNode_throws env = None \<Longrightarrow>
   start env cc nc s =
     (let s1 = s\<lparr>m_node := Some (InprocessNode cc nc),
                  initializer_emitted := initializer_emitted s @ map callback_signal (inprocess_init_callback env)\<rparr>
      in case inprocess_init_end env of
           InitThrows RuntimeError \<Rightarrow>
             (Returned (), emit_initializer (NodeInitFailedSignal (INTERNAL_WALLET_ERROR env)) s1)
         | InitThrows OtherException \<Rightarrow> (Failed (Exception OtherException), s1)
         | InitBlocks \<Rightarrow> (Blocked, s1\<lparr>initializer_in_init := True\<rparr>)
         | InitReturns \<Rightarrow> (Returned (), start_after_init s1))"
  by (simp add: start_def start_try_created start_rest_def Let_def split: init_end.splits exn.splits)

text \<open>
  C4, as the spec has it: an exception thrown while the in-process handle is made is
  caught and becomes an init-failed signal. The handle is made before the \<^verbatim>\<open>try\<close>
  block: when \<^verbatim>\<open>createInprocessNode\<close> throws, the exception leaves \<^verbatim>\<open>start\<close> and no
  signal is emitted.
\<close>

theorem start_construction_counterexample:
  "createInprocessNode (example_env\<lparr>createInprocessNode_throws := Some RuntimeError\<rparr>)
       (makeCoreConfig example_settings) (makeNetNodeConfig example_settings) = Inl RuntimeError
   \<and> start (example_env\<lparr>createInprocessNode_throws := Some RuntimeError\<rparr>)
       (makeCoreConfig example_settings) (makeNetNodeConfig example_settings) NodeAdapter
       = (Failed (Exception RuntimeError), NodeAdapter)"
  by (simp add: start_def start_try_def start_rest_def createInprocessNode_def)

text \<open>
  C4, amended: for every invocation of \<^verbatim>\<open>start\<close> in which the handle is made and its
  \<^verbatim>\<open>init\<close> call throws a \<^verbatim>\<open>std::runtime_error\<close>, the exception is caught in \<^verbatim>\<open>start\<close>,
  which emits init-failed with \<^verbatim>\<open>INTERNAL_WALLET_ERROR\<close> after the signals of the
  callback and returns.
\<close>

theorem start_catches_runtime_error_of_init:
  assumes "createInprocessNode_throws env = None" and "inprocess_init_end env = InitThrows RuntimeError"
  shows "fst (start env cc nc s) = Returned ()
       \<and> initializer_emitted (snd (start env cc nc s)) =
           initializer_emitted s @ map callback_signal (inprocess_init_callback env)
             @ [NodeInitFailedSignal (INTERNAL_WALLET_ERROR env)]"
  using assms
  by (simp add: start_created emit_initializer_def Let_def)

theorem start_catches_runtime_error_of_init_witness:
  "createInprocessNode_throws (example_env\<lparr>inprocess_init_callback := [], inprocess_init_end := InitThrows RuntimeError\<rparr>) = None
   \<and> inprocess_init_end (example_env\<lparr>inprocess_init_callback := [], inprocess_init_end := InitThrows RuntimeError\<rparr>)
       = InitThrows RuntimeError
   \<and> fst (start (example_env\<lparr>inprocess_init_callback := [], inprocess_init_end := InitThrows RuntimeError\<rparr>)
            (makeCoreConfig example_settings) (makeNetNodeConfig example_settings) NodeAdapter) = Returned ()
   \<and> initializer_emitted
        (snd (start (example_env\<lparr>inprocess_init_callback := [], inprocess_init_end := InitThrows RuntimeError\<rparr>)
            (makeCoreConfig example_settings) (makeNetNodeConfig example_settings) NodeAdapter))
       = [NodeInitFailedSignal 5]"
proof -
  have made: "createInprocessNode_throws
      (example_env\<lparr>inprocess_init_callback := [], inprocess_init_end := InitThrows RuntimeError\<rparr>) = None"
    by (simp add: example_env_def)
  have thrown: "inprocess_init_end
      (example_env\<lparr>inprocess_init_callback := [], inprocess_init_end := InitThrows RuntimeError\<rparr>)
      = InitThrows RuntimeError"
    by simp
  show ?thesis
    using made thrown
      start_catches_runtime_error_of_init
        [OF made thrown, of "makeCoreConfig example_settings" "makeNetNodeConfig example_settings" NodeAdapter]
    by (simp add: example_env_def NodeAdapter_def)
qed

text \<open>
  C5: in every invocation of \<^verbatim>\<open>start\<close> in which the handle is made, the handle is
  destroyed, the slot is set to null and deinit-completed is emitted before \<^verbatim>\<open>start\<close>
  returns, so that the handle does not outlive the invocation. The code does so when the
  \<^verbatim>\<open>init\<close> call returns, but not when it throws a \<^verbatim>\<open>std::runtime_error\<close>: the handler
  returns from \<^verbatim>\<open>start\<close> before the last three lines. In the run below the handle is
  made and \<^verbatim>\<open>init\<close> throws: \<^verbatim>\<open>start\<close> returns with the handle still in the slot,
  nothing destroyed and init-failed as the only signal. In the sibling run, where
  \<^verbatim>\<open>init\<close> reports code 7 to the callback and returns, the handle is destroyed, the slot
  is null and deinit-completed is the last signal.
\<close>

theorem start_early_return_keeps_handle:
  "createInprocessNode_throws
      (example_env\<lparr>inprocess_init_callback := [], inprocess_init_end := InitThrows RuntimeError\<rparr>) = None
   \<and> start (example_env\<lparr>inprocess_init_callback := [], inprocess_init_end := InitThrows RuntimeError\<rparr>)
        (makeCoreConfig example_settings) (makeNetNodeConfig example_settings) NodeAdapter
       = (Returned (),
          \<lparr>m_node = Some (InprocessNode (makeCoreConfig example_settings) (makeNetNodeConfig example_settings)),
           thread_isRunning = False, initializer_in_init = False,
           initializer_emitted = [NodeInitFailedSignal 5], adapter_emitted = [], deleted = []\<rparr>)
   \<and> start (example_env\<lparr>inprocess_init_callback := [7], inprocess_init_end := InitReturns\<rparr>)
        (makeCoreConfig example_settings) (makeNetNodeConfig example_settings) NodeAdapter
       = (Returned (),
          \<lparr>m_node = None, thread_isRunning = False, initializer_in_init = False,
           initializer_emitted = [NodeInitFailedSignal 7, NodeDeinitCompletedSignal], adapter_emitted = [],
           deleted = [InprocessNode (makeCoreConfig example_settings) (makeNetNodeConfig example_settings)]\<rparr>)"
proof -
  have made: "createInprocessNode_throws
      (example_env\<lparr>inprocess_init_callback := [], inprocess_init_end := InitThrows RuntimeError\<rparr>) = None"
    by (simp add: example_env_def)
  have made': "createInprocessNode_throws
      (example_env\<lparr>inprocess_init_callback := [7], inprocess_init_end := InitReturns\<rparr>) = None"
    by (simp add: example_env_def)
  have code: "INTERNAL_WALLET_ERROR example_env = 5"
    by (simp add: example_env_def)
  show ?thesis
    by (simp add: made start_created [OF made] start_created [OF made'] code emit_initializer_def
        start_after_init_def delete_node_def callback_signal_def NodeAdapter_def Let_def)
qed

text \<open>The two ways out of \<^verbatim>\<open>start\<close> after the handle is made, for every run.\<close>

lemma start_tears_down_when_init_returns:
  assumes "createInprocessNode_throws env = None"
  shows "(inprocess_init_end env = InitReturns \<longrightarrow>
           fst (start env cc nc s) = Returned ()
         \<and> m_node (snd (start env cc nc s)) = None
         \<and> deleted (snd (start env cc nc s)) = deleted s @ [InprocessNode cc nc]
         \<and> initializer_emitted (snd (start env cc nc s)) =
             initializer_emitted s @ map callback_signal (inprocess_init_callback env)
               @ [NodeDeinitCompletedSignal])
       \<and> (inprocess_init_end env = InitThrows RuntimeError \<longrightarrow>
           fst (start env cc nc s) = Returned ()
         \<and> m_node (snd (start env cc nc s)) = Some (InprocessNode cc nc)
         \<and> deleted (snd (start env cc nc s)) = deleted s
         \<and> initializer_emitted (snd (start env cc nc s)) =
             initializer_emitted s @ map callback_signal (inprocess_init_callback env)
               @ [NodeInitFailedSignal (INTERNAL_WALLET_ERROR env)])"
  using assms
  by (simp add: start_created start_after_init_def delete_node_def emit_initializer_def Let_def)

text \<open>\<^verbatim>\<open>start\<close> does not read the code of the RPC handle.\<close>

lemma start_try_rpc_init_error:
  "start_try (env\<lparr>rpc_init_error := e\<rparr>) cc nc s = start_try env cc nc s"
  by (simp add: start_try_def createInprocessNode_def inprocess_node_init_def
      cong: sum.case_cong prod.case_cong option.case_cong init_end.case_cong exn.case_cong)

section \<open>In-process initialization\<close>

lemma NodeAdapter_fields [simp]:
  "m_node NodeAdapter = None" "thread_isRunning NodeAdapter = False"
  "initializer_in_init NodeAdapter = False" "initializer_emitted NodeAdapter = []"
  "adapter_emitted NodeAdapter = []" "deleted NodeAdapter = []"
  by (simp_all add: NodeAdapter_def)

lemma inprocess_waitLoop_exec_find:
  "inprocess_waitLoop_exec sigs s =
     (case find is_completion sigs of
        None \<Rightarrow> None
      | Some NodeInitCompletedSignal \<Rightarrow> Some (0, emit_adapter AdapterNodeInitCompletedSignal s)
      | Some (NodeInitFailedSignal code) \<Rightarrow> Some (code, s)
      | Some NodeDeinitCompletedSignal \<Rightarrow> None)"
  by (induction sigs s rule: inprocess_waitLoop_exec.induct) simp_all

lemma relay_callback_emits:
  "relay_callback cb s = s\<lparr>adapter_emitted := adapter_emitted s @ [callback_relayed cb]\<rparr>"
  by (cases cb)
     (simp_all add: relay_callback_def peerCountUpdated_def localBlockchainUpdated_def
        lastKnownBlockHeightUpdated_def emit_adapter_def)

lemma foldl_relay_callback:
  "foldl (\<lambda>s' cb. relay_callback cb s') s cbs =
     s\<lparr>adapter_emitted := adapter_emitted s @ map callback_relayed cbs\<rparr>"
  by (induction cbs arbitrary: s) (simp_all add: relay_callback_emits)



lemma worker_by_slot:
  "m_node (snd (worker_by env point (phase, s))) = m_node s
   \<or> m_node (snd (worker_by env point (phase, s))) = None"
  by (cases phase)
     (simp_all add: worker_by_def start_after_init_def delete_node_def emit_initializer_def Let_def
        split: option.splits)

lemma return_result: "fst (initInProcessNode_return env r w) = r"
  by (cases w, cases "fst (worker_by env BeforeReturn w)")
     (auto simp: initInProcessNode_return_def split: prod.splits start_phase.splits)


lemma return_slot:
  "m_node (snd (initInProcessNode_return env r (phase, s))) = m_node s
   \<or> m_node (snd (initInProcessNode_return env r (phase, s))) = None"
  using worker_by_slot [of env BeforeReturn phase s]
  by (auto simp: initInProcessNode_return_def split: prod.splits start_phase.splits)



lemma getLastLocalBlockHeight_emit [simp]:
  "getLastLocalBlockHeight env (emit_adapter sig s) = getLastLocalBlockHeight env s"
  by (simp add: getLastLocalBlockHeight_def emit_adapter_def split: sum.splits)

lemma getLastKnownBlockHeight_emit [simp]:
  "getLastKnownBlockHeight env (emit_adapter sig s) = getLastKnownBlockHeight env s"
  by (simp add: getLastKnownBlockHeight_def emit_adapter_def split: sum.splits)

lemma heights_slot:
  "m_node (snd (initInProcessNode_heights env (phase, s))) = m_node s
   \<or> m_node (snd (initInProcessNode_heights env (phase, s))) = None"
proof -
  obtain p1 s1 where w1: "worker_by env BeforeLocalHeightQuery (phase, s) = (p1, s1)"
    by (cases "worker_by env BeforeLocalHeightQuery (phase, s)")
  have slot1: "m_node s1 = m_node s \<or> m_node s1 = None"
    using worker_by_slot [of env BeforeLocalHeightQuery phase s] w1 by simp
  show ?thesis
  proof (cases "getLastLocalBlockHeight env s1")
    case (Inl f)
    then show ?thesis
      using w1 slot1 return_slot [of env "Failed f :: bool outcome" p1 s1]
      by (auto simp: initInProcessNode_heights_def)
  next
    case (Inr localHeight)
    let ?s2 = "emit_adapter (LocalBlockchainUpdatedSignal localHeight) s1"
    obtain p2 s3 where w2: "worker_by env BeforeKnownHeightQuery (p1, ?s2) = (p2, s3)"
      by (cases "worker_by env BeforeKnownHeightQuery (p1, ?s2)")
    have slot2: "m_node s3 = m_node s \<or> m_node s3 = None"
      using worker_by_slot [of env BeforeKnownHeightQuery p1 ?s2] w2 slot1
      by (auto simp: emit_adapter_def)
    show ?thesis
    proof (cases "getLastKnownBlockHeight env s3")
      case (Inl f)
      then show ?thesis
        using w1 w2 Inr slot2 return_slot [of env "Failed f :: bool outcome" p2 s3]
        by (auto simp: initInProcessNode_heights_def Let_def)
    next
      case known: (Inr knownHeight)
      let ?s4 = "emit_adapter (LastKnownBlockHeightUpdatedSignal knownHeight) s3"
      have "m_node ?s4 = m_node s3"
        by (simp add: emit_adapter_def)
      then show ?thesis
        using w1 w2 Inr known slot2 return_slot [of env "Returned True" p2 ?s4]
        by (auto simp: initInProcessNode_heights_def Let_def)
    qed
  qed
qed


text \<open>The run of \<^verbatim>\<open>start\<close> that \<^verbatim>\<open>initInProcessNode\<close> sets off.\<close>

lemma worker_try_created:
  assumes "createInprocessNode_throws env = None"
  shows "fst (worker_try env s) =
           (case inprocess_init_end env of
              InitReturns \<Rightarrow> InitReturned
            | InitThrows RuntimeError \<Rightarrow> StartReturned
            | InitThrows OtherException \<Rightarrow> Escaped OtherException
            | InitBlocks \<Rightarrow> InitRunning)"
    and "m_node (snd (worker_try env s)) =
           Some (InprocessNode (makeCoreConfig (settings_instance env))
                               (makeNetNodeConfig (settings_instance env)))"
    and "adapter_emitted (snd (worker_try env s)) =
           adapter_emitted s @ [InitNodeSignal (makeCoreConfig (settings_instance env))
                                               (makeNetNodeConfig (settings_instance env))]"
    and "worker_emitted env s =
           map callback_signal (inprocess_init_callback env)
             @ (case inprocess_init_end env of
                  InitThrows RuntimeError \<Rightarrow> [NodeInitFailedSignal (INTERNAL_WALLET_ERROR env)]
                | InitThrows OtherException \<Rightarrow> []
                | InitReturns \<Rightarrow> []
                | InitBlocks \<Rightarrow> [])"
  using assms
  by (simp_all add: worker_try_def worker_emitted_def start_try_created emit_adapter_def
      emit_initializer_def Let_def split: init_end.splits exn.splits)

lemma worker_try_escaped:
  "createInprocessNode_throws env = Some e \<Longrightarrow> worker_try env s =
     (Escaped e, emit_adapter (InitNodeSignal (makeCoreConfig (settings_instance env))
                                     (makeNetNodeConfig (settings_instance env)))
          (s\<lparr>thread_isRunning := True\<rparr>))"
  by (simp add: worker_try_def start_try_def createInprocessNode_def)

lemma worker_try_slot:
  assumes "m_node s = None"
  shows "m_node (snd (worker_try env s)) \<noteq> Some (RpcNode host port)"
proof (cases "createInprocessNode_throws env")
  case None
  then show ?thesis by (simp add: worker_try_created)
next
  case (Some e)
  then show ?thesis using assms by (simp add: worker_try_escaped emit_adapter_def)
qed

text \<open>\<^verbatim>\<open>initInProcessNode\<close> by the first completion signal of the worker.\<close>

lemma initInProcessNode_worker:
  assumes "m_node s = None"
  shows "initInProcessNode env s =
     (case worker_try env s of
        (Escaped e, s1) \<Rightarrow> (Failed (Exception e), s1)
      | (phase, s1) \<Rightarrow>
          (let s2 = s1\<lparr>adapter_emitted := adapter_emitted s1
                         @ map callback_relayed (inprocess_wait_callbacks env)\<rparr> in
           case find is_completion (worker_emitted env s) of
             None \<Rightarrow> (Blocked, snd (worker_by env AfterReturn (phase, s2)))
           | Some NodeDeinitCompletedSignal \<Rightarrow> (Blocked, snd (worker_by env AfterReturn (phase, s2)))
           | Some (NodeInitFailedSignal code) \<Rightarrow>
               if code \<noteq> 0 then initInProcessNode_return env (Returned False) (phase, s2)
               else initInProcessNode_heights env (phase, s2)
           | Some NodeInitCompletedSignal \<Rightarrow>
               initInProcessNode_heights env (phase, emit_adapter AdapterNodeInitCompletedSignal s2)))"
  using assms
  by (simp add: initInProcessNode_def Q_ASSERT_def Let_def worker_try_def worker_emitted_def
      inprocess_waitLoop_exec_find foldl_relay_callback emit_adapter_def
      split: prod.splits start_phase.splits option.splits initializer_signal.splits)

lemma initInProcessNode_slot:
  assumes "m_node s = None"
  shows "m_node (snd (initInProcessNode env s)) \<noteq> Some (RpcNode host port)"
proof -
  obtain phase s1 where run: "worker_try env s = (phase, s1)"
    by (cases "worker_try env s")
  have slot1: "m_node s1 \<noteq> Some (RpcNode host port)"
    using worker_try_slot [OF assms, of env host port] run by simp
  let ?s2 = "s1\<lparr>adapter_emitted := adapter_emitted s1
                         @ map callback_relayed (inprocess_wait_callbacks env)\<rparr>"
  have slot2: "m_node ?s2 = m_node s1" "m_node (emit_adapter AdapterNodeInitCompletedSignal ?s2) = m_node s1"
    by (simp_all add: emit_adapter_def)
  note facts = slot1 slot2
    worker_by_slot [of env AfterReturn phase ?s2]
    return_slot [of env "Returned False :: bool outcome" phase ?s2]
    heights_slot [of env phase ?s2]
    heights_slot [of env phase "emit_adapter AdapterNodeInitCompletedSignal ?s2"]
  show ?thesis
  proof (cases "is_Escaped phase")
    case True
    then show ?thesis
      using run slot1 by (cases phase) (simp_all add: initInProcessNode_worker [OF assms])
  next
    case False
    then show ?thesis
      using run facts
      by (cases phase)
         (auto simp: initInProcessNode_worker [OF assms] Let_def
            split: option.splits initializer_signal.splits)
  qed
qed


text \<open>
  One order of the two threads when the callback reports success and the \<^verbatim>\<open>init\<close>
  call then returns: the worker has destroyed the handle before the local height is
  queried, and the query fails its assertion.
\<close>

lemma initInProcessNode_teardown_before_query:
  "fst (initInProcessNode
          (example_env\<lparr>inprocess_init_end := InitReturns, teardown := BeforeLocalHeightQuery\<rparr>)
          NodeAdapter) = Failed AssertionFailure"
proof -
  let ?env = "example_env\<lparr>inprocess_init_end := InitReturns, teardown := BeforeLocalHeightQuery\<rparr>"
  have made: "createInprocessNode_throws ?env = None"
    by (simp add: example_env_def)
  have phase: "fst (worker_try ?env NodeAdapter) = InitReturned"
    by (simp add: worker_try_created(1) [OF made])
  have first: "find is_completion (worker_emitted ?env NodeAdapter) = Some NodeInitCompletedSignal"
    unfolding worker_try_created(4) [OF made] by (simp add: example_env_def callback_signal_def)
  have null: "m_node NodeAdapter = None"
    by simp
  obtain s1 where run: "worker_try ?env NodeAdapter = (InitReturned, s1)"
    using phase by (cases "worker_try ?env NodeAdapter") simp
  show ?thesis
    by (simp add: initInProcessNode_worker [OF null] run first initInProcessNode_heights_def
        worker_by_def start_after_init_def delete_node_def emit_initializer_def emit_adapter_def
        getLastLocalBlockHeight_def Q_CHECK_PTR_def return_result Let_def split: option.splits)
qed



section \<open>Initialization over RPC, with the fallback\<close>

text \<open>The wait loop of \<^verbatim>\<open>init\<close> by the order of arrival.\<close>

lemma waitLoop_exec_relayed:
  "waitLoop_exec evs t s =
     (if liveness_before_timer evs
      then Some (t, s\<lparr>adapter_emitted := adapter_emitted s @ relayed evs\<rparr>)
      else if timer_fires evs
      then Some (timer_timeout t, s\<lparr>adapter_emitted := adapter_emitted s @ relayed evs\<rparr>)
      else None)"
  by (induction evs t s rule: waitLoop_exec.induct)
     (simp_all add: liveness_before_timer_def before_timer_def timer_fires_def peerCountUpdated_def
        localBlockchainUpdated_def lastKnownBlockHeightUpdated_def emit_adapter_def)

lemma relayed_no_InitNodeSignal: "filter is_InitNodeSignal (relayed evs) = []"
  by (induction evs rule: relayed.induct) simp_all

text \<open>\<^verbatim>\<open>init\<close> on a state with no handle, by the order of arrival.\<close>

lemma init_run_cases:
  assumes "m_node s = None"
  shows "init_run env s =
     (let rpc = RpcNode ''127.0.0.1'' (RPC_DEFAULT_PORT env);
          s1 = s\<lparr>m_node := Some rpc,
                  adapter_emitted := adapter_emitted s @ relayed (waitLoop_events env)\<rparr>
      in if liveness_before_timer (waitLoop_events env)
         then (Returned True, emit_adapter AdapterNodeInitCompletedSignal s1,
               \<lparr>interval = 3000, singleShot = True, active = False, fired = False\<rparr>)
         else if timer_fires (waitLoop_events env)
         then (case initInProcessNode env (s1\<lparr>deleted := deleted s @ [rpc], m_node := None\<rparr>) of
                 (r, s2) \<Rightarrow> (r, s2, \<lparr>interval = 3000, singleShot = True, active = False, fired = True\<rparr>))
         else (Blocked, s\<lparr>m_node := Some rpc\<rparr>,
               \<lparr>interval = 3000, singleShot = True, active = True, fired = False\<rparr>))"
  using assms
  by (simp add: init_run_def Q_ASSERT_def Let_def createRpcNode_def rpc_node_init_def init_callback_def
      waitLoop_exec_relayed QTimer_def setInterval_def setSingleShot_def timer_start_def timer_stop_def
      isActive_def timer_timeout_def delete_node_def)

text \<open>
  C1: for every run of \<^verbatim>\<open>init\<close> from a state with no handle in which a peer-count or
  local-blockchain notification arrives before the timer fires, \<^verbatim>\<open>init\<close> returns true
  with the timer stopped and not fired, the adapter's init-completed is the last signal
  emitted, the RPC handle is in the slot and no handle was destroyed; the worker thread
  is not started, \<^verbatim>\<open>initNodeSignal\<close> is not emitted and the worker emits nothing.
\<close>

theorem init_liveness_keeps_rpc:
  assumes "m_node s = None" and "liveness_before_timer (waitLoop_events env)"
  shows "fst (init env s) = Returned True
       \<and> m_node (snd (init env s)) = Some (RpcNode ''127.0.0.1'' (RPC_DEFAULT_PORT env))
       \<and> deleted (snd (init env s)) = deleted s
       \<and> last (adapter_emitted (snd (init env s))) = AdapterNodeInitCompletedSignal
       \<and> filter is_InitNodeSignal (adapter_emitted (snd (init env s)))
           = filter is_InitNodeSignal (adapter_emitted s)
       \<and> thread_isRunning (snd (init env s)) = thread_isRunning s
       \<and> initializer_in_init (snd (init env s)) = initializer_in_init s
       \<and> initializer_emitted (snd (init env s)) = initializer_emitted s
       \<and> snd (snd (init_run env s)) = \<lparr>interval = 3000, singleShot = True, active = False, fired = False\<rparr>"
  using assms
  by (simp add: init_def init_run_cases Let_def emit_adapter_def relayed_no_InitNodeSignal)

theorem init_liveness_keeps_rpc_witness:
  "m_node NodeAdapter = None
   \<and> liveness_before_timer (waitLoop_events example_env)
   \<and> fst (init example_env NodeAdapter) = Returned True
   \<and> m_node (snd (init example_env NodeAdapter)) = Some (RpcNode ''127.0.0.1'' 8081)
   \<and> deleted (snd (init example_env NodeAdapter)) = []
   \<and> last (adapter_emitted (snd (init example_env NodeAdapter))) = AdapterNodeInitCompletedSignal
   \<and> \<not> thread_isRunning (snd (init example_env NodeAdapter))
   \<and> initializer_emitted (snd (init example_env NodeAdapter)) = []"
proof -
  have null: "m_node NodeAdapter = None"
    by simp
  have alive: "liveness_before_timer (waitLoop_events example_env)"
    by (simp add: example_env_def liveness_before_timer_def before_timer_def)
  have port: "RPC_DEFAULT_PORT example_env = 8081"
    by (simp add: example_env_def)
  show ?thesis
    using null alive init_liveness_keeps_rpc [OF null alive] by (simp add: port)
qed

text \<open>
  C2: for every run of \<^verbatim>\<open>init\<close> from a state with no handle in which the timer fires
  and no peer-count or local-blockchain notification arrives before it, the RPC handle
  is destroyed, the slot is set to null, and the result and the state of \<^verbatim>\<open>init\<close> are
  those of \<^verbatim>\<open>initInProcessNode\<close> on that state.
\<close>

theorem init_timeout_falls_back:
  assumes "m_node s = None"
    and "\<not> liveness_before_timer (waitLoop_events env)"
    and "timer_fires (waitLoop_events env)"
  shows "init env s =
           initInProcessNode env
             (s\<lparr>adapter_emitted := adapter_emitted s @ relayed (waitLoop_events env),
                deleted := deleted s @ [RpcNode ''127.0.0.1'' (RPC_DEFAULT_PORT env)],
                m_node := None\<rparr>)
       \<and> snd (snd (init_run env s)) = \<lparr>interval = 3000, singleShot = True, active = False, fired = True\<rparr>"
  using assms
  by (simp add: init_def init_run_cases Let_def split: prod.splits)

theorem init_timeout_falls_back_witness:
  "m_node NodeAdapter = None
   \<and> \<not> liveness_before_timer (waitLoop_events (example_env\<lparr>waitLoop_events := timeout_events\<rparr>))
   \<and> timer_fires (waitLoop_events (example_env\<lparr>waitLoop_events := timeout_events\<rparr>))
   \<and> init (example_env\<lparr>waitLoop_events := timeout_events\<rparr>) NodeAdapter =
       initInProcessNode (example_env\<lparr>waitLoop_events := timeout_events\<rparr>)
         (NodeAdapter\<lparr>adapter_emitted := [LastKnownBlockHeightUpdatedSignal 120],
                      deleted := [RpcNode ''127.0.0.1'' 8081], m_node := None\<rparr>)"
proof -
  let ?env = "example_env\<lparr>waitLoop_events := timeout_events\<rparr>"
  have null: "m_node NodeAdapter = None"
    by simp
  have silent: "\<not> liveness_before_timer (waitLoop_events ?env)"
    by (simp add: timeout_events_def liveness_before_timer_def before_timer_def)
  have fires: "timer_fires (waitLoop_events ?env)"
    by (simp add: timeout_events_def timer_fires_def)
  have port: "RPC_DEFAULT_PORT ?env = 8081"
    by (simp add: example_env_def)
  have relay: "relayed timeout_events = [LastKnownBlockHeightUpdatedSignal 120]"
    by (simp add: timeout_events_def)
  show ?thesis
    using null silent fires init_timeout_falls_back [OF null silent fires]
    by (simp add: port relay)
qed

text \<open>None of the in-process path reads the code that the RPC handle gives to its callback.\<close>

lemma heights_rpc_init_error:
  "getLastLocalBlockHeight (env\<lparr>rpc_init_error := e\<rparr>) s = getLastLocalBlockHeight env s"
  "getLastKnownBlockHeight (env\<lparr>rpc_init_error := e\<rparr>) s = getLastKnownBlockHeight env s"
  by (simp_all add: getLastLocalBlockHeight_def getLastKnownBlockHeight_def cong: sum.case_cong)

lemma worker_by_rpc_init_error:
  "worker_by (env\<lparr>rpc_init_error := e\<rparr>) point w = worker_by env point w"
  by (simp add: worker_by_def cong: prod.case_cong start_phase.case_cong)

lemma return_rpc_init_error:
  "initInProcessNode_return (env\<lparr>rpc_init_error := e\<rparr>) r w = initInProcessNode_return env r w"
  by (simp add: initInProcessNode_return_def worker_by_rpc_init_error)

lemma heights_republish_rpc_init_error:
  "initInProcessNode_heights (env\<lparr>rpc_init_error := e\<rparr>) w = initInProcessNode_heights env w"
  by (simp add: initInProcessNode_heights_def worker_by_rpc_init_error return_rpc_init_error
      heights_rpc_init_error cong: sum.case_cong prod.case_cong)

lemma initInProcessNode_rpc_init_error:
  "initInProcessNode (env\<lparr>rpc_init_error := e\<rparr>) s = initInProcessNode env s"
  by (simp add: initInProcessNode_def start_try_rpc_init_error worker_by_rpc_init_error
      return_rpc_init_error heights_republish_rpc_init_error
      cong: sum.case_cong prod.case_cong option.case_cong start_phase.case_cong if_cong)

lemma init_run_rpc_init_error:
  "init_run (env\<lparr>rpc_init_error := e\<rparr>) s = init_run env s"
  by (simp add: init_run_def rpc_node_init_def init_callback_def initInProcessNode_rpc_init_error
      cong: sum.case_cong prod.case_cong option.case_cong outcome.case_cong if_cong)

text \<open>
  C9: two runs of \<^verbatim>\<open>init\<close> that differ only in the error code that the RPC handle
  gives to its completion callback have the same result and the same final state; and
  from a state with no handle, \<^verbatim>\<open>init\<close> returns true with the RPC handle installed
  exactly when a peer-count or local-blockchain notification arrives before the timer
  fires.
\<close>

theorem init_ignores_rpc_init_error:
  "init (env\<lparr>rpc_init_error := code\<rparr>) s = init (env\<lparr>rpc_init_error := code'\<rparr>) s
   \<and> (m_node s = None \<longrightarrow>
        (fst (init env s) = Returned True
           \<and> m_node (snd (init env s)) = Some (RpcNode ''127.0.0.1'' (RPC_DEFAULT_PORT env)))
        = liveness_before_timer (waitLoop_events env))"
proof -
  have indep: "init (env\<lparr>rpc_init_error := code\<rparr>) s = init (env\<lparr>rpc_init_error := code'\<rparr>) s"
    by (simp add: init_def init_run_rpc_init_error)
  have decided: "(fst (init env s) = Returned True
           \<and> m_node (snd (init env s)) = Some (RpcNode ''127.0.0.1'' (RPC_DEFAULT_PORT env)))
        = liveness_before_timer (waitLoop_events env)" if null: "m_node s = None"
  proof (cases "liveness_before_timer (waitLoop_events env)")
    case True
    then show ?thesis
      using null by (simp add: init_def init_run_cases Let_def emit_adapter_def)
  next
    case False
    show ?thesis
    proof (cases "timer_fires (waitLoop_events env)")
      case True
      let ?s1 = "s\<lparr>adapter_emitted := adapter_emitted s @ relayed (waitLoop_events env),
                deleted := deleted s @ [RpcNode ''127.0.0.1'' (RPC_DEFAULT_PORT env)],
                m_node := None\<rparr>"
      have fallback: "init env s = initInProcessNode env ?s1"
        using null False True by (simp add: init_def init_run_cases Let_def split: prod.splits)
      have "m_node ?s1 = None" by simp
      then have "m_node (snd (initInProcessNode env ?s1)) \<noteq> Some (RpcNode ''127.0.0.1'' (RPC_DEFAULT_PORT env))"
        by (rule initInProcessNode_slot)
      with fallback False show ?thesis by simp
    next
      case no_timer: False
      then show ?thesis
        using null False by (simp add: init_def init_run_cases Let_def)
    qed
  qed
  from indep decided show ?thesis by blast
qed

theorem init_ignores_rpc_init_error_witness:
  "init (example_env\<lparr>rpc_init_error := 0\<rparr>) NodeAdapter = init (example_env\<lparr>rpc_init_error := 111\<rparr>) NodeAdapter
   \<and> m_node NodeAdapter = None
   \<and> \<not> liveness_before_timer (waitLoop_events (example_env\<lparr>waitLoop_events := timeout_events\<rparr>))
   \<and> \<not> (fst (init (example_env\<lparr>waitLoop_events := timeout_events\<rparr>) NodeAdapter) = Returned True
         \<and> m_node (snd (init (example_env\<lparr>waitLoop_events := timeout_events\<rparr>) NodeAdapter))
              = Some (RpcNode ''127.0.0.1'' 8081))"
proof -
  let ?env = "example_env\<lparr>waitLoop_events := timeout_events\<rparr>"
  have null: "m_node NodeAdapter = None"
    by simp
  have silent: "\<not> liveness_before_timer (waitLoop_events ?env)"
    by (simp add: timeout_events_def liveness_before_timer_def before_timer_def)
  have port: "RPC_DEFAULT_PORT ?env = 8081"
    by (simp add: example_env_def)
  show ?thesis
    using null silent
      init_ignores_rpc_init_error [where env = example_env and s = NodeAdapter and code = 0 and code' = 111]
      init_ignores_rpc_init_error [where env = ?env and s = NodeAdapter and code = 0 and code' = 0]
    by (simp add: port)
qed

section \<open>Deinitialization\<close>

text \<open>
  C6: on a state with no handle \<^verbatim>\<open>deinit\<close> returns at once and changes nothing;
  whenever \<^verbatim>\<open>deinit\<close> returns, the slot is null; hence a second \<^verbatim>\<open>deinit\<close> right
  after one that returned returns at once and changes nothing.
\<close>

theorem deinit_idempotent:
  "(m_node s = None \<longrightarrow> deinit s = (Returned (), s))
   \<and> (fst (deinit s) = Returned () \<longrightarrow>
        m_node (snd (deinit s)) = None \<and> deinit (snd (deinit s)) = (Returned (), snd (deinit s)))"
proof -
  have noop: "deinit s' = (Returned (), s')" if "m_node s' = None" for s'
    using that by (simp add: deinit_def)
  have null: "m_node (snd (deinit s)) = None" if "fst (deinit s) = Returned ()"
  proof (cases "m_node s")
    case None
    then show ?thesis by (simp add: deinit_def)
  next
    case (Some node)
    show ?thesis
    proof (cases "thread_isRunning s")
      case False
      with Some show ?thesis by (simp add: deinit_def Let_def delete_node_def)
    next
      case True
      show ?thesis
      proof (cases "initializer_in_init s")
        case in_init: True
        with Some True show ?thesis
          by (simp add: deinit_def Let_def stop_def Q_CHECK_PTR_def node_deinit_def start_after_init_def
              delete_node_def emit_initializer_def)
      next
        case False
        with Some True that show ?thesis
          by (simp add: deinit_def Let_def stop_def Q_CHECK_PTR_def node_deinit_def)
      qed
    qed
  qed
  from noop null show ?thesis by blast
qed

theorem deinit_idempotent_witness:
  "m_node NodeAdapter = None
   \<and> deinit NodeAdapter = (Returned (), NodeAdapter)
   \<and> fst (deinit rpc_connected) = Returned ()
   \<and> m_node (snd (deinit rpc_connected)) = None
   \<and> deinit (snd (deinit rpc_connected)) = (Returned (), snd (deinit rpc_connected))
   \<and> fst (deinit inprocess_serving) = Returned ()
   \<and> m_node (snd (deinit inprocess_serving)) = None
   \<and> deinit (snd (deinit inprocess_serving)) = (Returned (), snd (deinit inprocess_serving))"
proof -
  have null: "m_node NodeAdapter = None"
    by simp
  have rpc: "fst (deinit rpc_connected) = Returned ()"
    by (simp add: deinit_def rpc_connected_def Let_def)
  have serving: "fst (deinit inprocess_serving) = Returned ()"
    by (simp add: deinit_def inprocess_serving_def Let_def stop_def Q_CHECK_PTR_def node_deinit_def
        start_after_init_def delete_node_def emit_initializer_def)
  show ?thesis
    using null rpc serving deinit_idempotent [of NodeAdapter] deinit_idempotent [of rpc_connected]
      deinit_idempotent [of inprocess_serving]
    by simp
qed

end
